theory Spec2Isabelle
  imports Main "HOL-Library.AList" "HOL-Library.Sublist"
begin

section \<open>Filesystem model\<close>

text \<open>
  A path is the list of its components relative to a synchronisation root; the empty
  list is the root itself. A tree is the listing of its entries in the order in which
  \<^verbatim>\<open>filepath.WalkDir\<close> meets them; lookups go through \<open>map_of\<close>. The source tree and
  the target tree are two separate listings (the two roots do not overlap).
  A regular file carries its bytes and its modification time (nanoseconds, full
  precision); a directory carries the system-dependent size and the modification time
  that \<^verbatim>\<open>os.Stat\<close> reports for it.
\<close>

type_synonym path = "string list"

datatype node = Reg string int | Dir nat int

type_synonym tree = "(path \<times> node) list"

fun node_size :: "node \<Rightarrow> nat" where
  "node_size (Reg c t) = length c"
| "node_size (Dir s t) = s"

fun node_modtime :: "node \<Rightarrow> int" where
  "node_modtime (Reg c t) = t"
| "node_modtime (Dir s t) = t"

fun is_dir :: "node \<Rightarrow> bool" where
  "is_dir (Reg c t) = False"
| "is_dir (Dir s t) = True"

datatype side = Source | Target

text \<open>
  Everything the operating system decides is a field of the environment: which calls
  fail for reasons outside the tree (permissions, I/O errors), the clock, the size
  reported for a fresh directory, and the digest function of \<^verbatim>\<open>crypto/sha256\<close>.
\<close>

record env =
  stat_err :: "side \<Rightarrow> path \<Rightarrow> bool"
  readdir_err :: "side \<Rightarrow> path \<Rightarrow> bool"
  rel_err :: "side \<Rightarrow> path \<Rightarrow> bool"
  mkdir_err :: "path \<Rightarrow> bool"
  open_err :: "side \<Rightarrow> path \<Rightarrow> bool"
  read_err :: "side \<Rightarrow> path \<Rightarrow> bool"
  create_err :: "path \<Rightarrow> bool"
  copy_err :: "path \<Rightarrow> nat option"
  fstat_err :: "path \<Rightarrow> bool"
  chtimes_err :: "path \<Rightarrow> bool"
  remove_err :: "path \<Rightarrow> bool"
  now :: int
  dir_size :: nat
  sha256 :: "string \<Rightarrow> string"

definition ancestors :: "path \<Rightarrow> path list" where
  "ancestors p = butlast (prefixes p)"

definition is_reg_at :: "tree \<Rightarrow> path \<Rightarrow> bool" where
  "is_reg_at fs q = (case map_of fs q of Some (Reg c t) \<Rightarrow> True | _ \<Rightarrow> False)"

definition is_dir_at :: "tree \<Rightarrow> path \<Rightarrow> bool" where
  "is_dir_at fs q = (case map_of fs q of Some (Dir s t) \<Rightarrow> True | _ \<Rightarrow> False)"

text \<open>A path below a regular file cannot be resolved (ENOTDIR).\<close>

definition blocked :: "tree \<Rightarrow> path \<Rightarrow> bool" where
  "blocked fs p = list_ex (is_reg_at fs) (ancestors p)"

datatype stat_result = StatOk node | StatNotExist | StatFailed

text \<open>\<^verbatim>\<open>os.Stat\<close>, with \<^verbatim>\<open>os.IsNotExist\<close> true exactly for \<open>StatNotExist\<close>.\<close>

definition os_stat :: "env \<Rightarrow> side \<Rightarrow> tree \<Rightarrow> path \<Rightarrow> stat_result" where
  "os_stat e sd fs p =
     (if stat_err e sd p \<or> blocked fs p then StatFailed
      else case map_of fs p of None \<Rightarrow> StatNotExist | Some n \<Rightarrow> StatOk n)"

section \<open>Errors\<close>

datatype error =
    UnsupportedMethod string
  | StatSourceFailed path
  | StatDestFailed path
  | HashSourceFailed path
  | HashDestFailed path
  | RelativePathError path
  | FileStatError path
  | CannotCreateParentDir path
  | CannotOpenFile path
  | CannotCreateFile path
  | FileCopyFailed path
  | SyncFailed error
  | SourceDirValidation
  | TargetDirValidation
  | CompletedWithErrors

section \<open>Update strategies\<close>

datatype strategy = ModTimeStrategy | SHA256Strategy

fun strategy_name :: "strategy \<Rightarrow> string" where
  "strategy_name ModTimeStrategy = ''modtime''"
| "strategy_name SHA256Strategy = ''sha256''"

definition NewUpdateStrategy :: "string \<Rightarrow> error + strategy" where
  "NewUpdateStrategy method =
     (if method = ''modtime'' then Inr ModTimeStrategy
      else if method = ''sha256'' then Inr SHA256Strategy
      else Inl (UnsupportedMethod method))"

definition modtime_needs_update :: "env \<Rightarrow> tree \<Rightarrow> tree \<Rightarrow> path \<Rightarrow> path \<Rightarrow> error + bool" where
  "modtime_needs_update e src dst sp dp =
     (case os_stat e Source src sp of
        StatOk srcInfo \<Rightarrow>
          (case os_stat e Target dst dp of
             StatOk dstInfo \<Rightarrow>
               (if node_size srcInfo \<noteq> node_size dstInfo then Inr True
                else if node_modtime srcInfo \<noteq> node_modtime dstInfo then Inr True
                else Inr False)
           | _ \<Rightarrow> Inl (StatDestFailed dp))
      | _ \<Rightarrow> Inl (StatSourceFailed sp))"

text \<open>
  \<^verbatim>\<open>calculateSHA256\<close>: open the file, stream it into the hash. Opening fails when
  the path cannot be resolved; reading a directory fails.
\<close>

definition calculateSHA256 :: "env \<Rightarrow> side \<Rightarrow> tree \<Rightarrow> path \<Rightarrow> string option" where
  "calculateSHA256 e sd fs p =
     (if open_err e sd p \<or> blocked fs p then None
      else case map_of fs p of
             None \<Rightarrow> None
           | Some (Dir s t) \<Rightarrow> None
           | Some (Reg c t) \<Rightarrow> if read_err e sd p then None else Some (sha256 e c))"

definition sha256_needs_update :: "env \<Rightarrow> tree \<Rightarrow> tree \<Rightarrow> path \<Rightarrow> path \<Rightarrow> error + bool" where
  "sha256_needs_update e src dst sp dp =
     (case calculateSHA256 e Source src sp of
        None \<Rightarrow> Inl (HashSourceFailed sp)
      | Some srcHash \<Rightarrow>
          (case calculateSHA256 e Target dst dp of
             None \<Rightarrow> Inl (HashDestFailed dp)
           | Some dstHash \<Rightarrow> Inr (srcHash \<noteq> dstHash)))"

fun NeedsUpdate :: "strategy \<Rightarrow> env \<Rightarrow> tree \<Rightarrow> tree \<Rightarrow> path \<Rightarrow> path \<Rightarrow> error + bool" where
  "NeedsUpdate ModTimeStrategy e src dst sp dp = modtime_needs_update e src dst sp dp"
| "NeedsUpdate SHA256Strategy e src dst sp dp = sha256_needs_update e src dst sp dp"

section \<open>Log events\<close>

text \<open>
  The calls to the logger that tell what a run did: the phase banners of the
  orchestrator, the progress lines of the two passes and their closing summaries.
\<close>

datatype event =
    PhaseValidate | PhaseSync | PhaseDelete
  | NewFile path | ModifiedFile path | SkipUnchanged path | Copied path
  | Removed path | Keeping path
  | SyncSummary nat nat nat nat
  | CleanupSummary nat nat nat

section \<open>File transfer\<close>

definition mkdir_one :: "env \<Rightarrow> path \<Rightarrow> tree \<Rightarrow> tree" where
  "mkdir_one e q fs =
     (case map_of fs q of
        None \<Rightarrow> AList.update q (Dir (dir_size e) (now e)) fs
      | Some n \<Rightarrow> fs)"

text \<open>
  \<^verbatim>\<open>os.MkdirAll\<close>: creates the directory and every missing ancestor; fails when a
  component is a regular file.
\<close>

definition MkdirAll :: "env \<Rightarrow> tree \<Rightarrow> path \<Rightarrow> tree option" where
  "MkdirAll e fs d =
     (if mkdir_err e d \<or> list_ex (is_reg_at fs) (prefixes d) then None
      else Some (fold (mkdir_one e) (prefixes d) fs))"

text \<open>
  \<^verbatim>\<open>os.MkdirAll(filepath.Dir(dst))\<close>. The parent of the target root lies outside
  the tree: creating it changes nothing in the tree.
\<close>

definition mkdir_parent :: "env \<Rightarrow> tree \<Rightarrow> path \<Rightarrow> tree option" where
  "mkdir_parent e fs dp =
     (if dp = [] then (if mkdir_err e [] then None else Some fs)
      else MkdirAll e fs (butlast dp))"

definition copyFile :: "env \<Rightarrow> tree \<Rightarrow> tree \<Rightarrow> path \<Rightarrow> path \<Rightarrow> error option \<times> tree \<times> event list" where
  "copyFile e src dst sp dp =
     (case mkdir_parent e dst dp of
        None \<Rightarrow> (Some (CannotCreateParentDir dp), dst, [])
      | Some d1 \<Rightarrow>
          if open_err e Source sp \<or> blocked src sp \<or> map_of src sp = None
          then (Some (CannotOpenFile sp), d1, [])
          else if create_err e dp \<or> is_dir_at d1 dp
          then (Some (CannotCreateFile dp), d1, [])
          else
            (case map_of src sp of
               Some (Reg c t) \<Rightarrow>
                 (case copy_err e dp of
                    Some k \<Rightarrow>
                      (Some (FileCopyFailed dp), AList.update dp (Reg (take k c) (now e)) d1, [])
                  | None \<Rightarrow>
                      (None,
                       AList.update dp
                         (Reg c (if fstat_err e sp \<or> chtimes_err e dp then now e else t)) d1,
                       [Copied dp]))
             | _ \<Rightarrow> (Some (FileCopyFailed dp), AList.update dp (Reg [] (now e)) d1, [])))"

section \<open>Copy pass\<close>

text \<open>
  \<^verbatim>\<open>filepath.Rel(srcRoot, srcPath)\<close> followed by \<^verbatim>\<open>filepath.Join(dstRoot, rel)\<close>:
  the relative path names the counterpart under the other root.
\<close>

definition processFileWithStrategy ::
  "env \<Rightarrow> strategy \<Rightarrow> tree \<Rightarrow> tree \<Rightarrow> path \<Rightarrow> error option \<times> tree \<times> event list" where
  "processFileWithStrategy e strat src dst srcPath =
     (if rel_err e Source srcPath then (Some (RelativePathError srcPath), dst, [])
      else
        (case os_stat e Target dst srcPath of
           StatNotExist \<Rightarrow>
             (case copyFile e src dst srcPath srcPath of
                (r, d, l) \<Rightarrow> (r, d, NewFile srcPath # l))
         | StatFailed \<Rightarrow> (Some (FileStatError srcPath), dst, [])
         | StatOk n \<Rightarrow>
             (case NeedsUpdate strat e src dst srcPath srcPath of
                Inl err \<Rightarrow> (Some err, dst, [])
              | Inr needsUpdate \<Rightarrow>
                  if needsUpdate
                  then (case copyFile e src dst srcPath srcPath of
                          (r, d, l) \<Rightarrow> (r, d, ModifiedFile srcPath # l))
                  else (None, dst, [SkipUnchanged srcPath]))))"

text \<open>
  \<^verbatim>\<open>filepath.WalkDir\<close>: the callback gets the root first; a root that cannot be
  inspected gives one call with an error. A directory is reported, then read; when
  reading fails the callback is called again with the error and the directory's
  entries are not visited. A path listed twice is one entry: the walk runs over the
  listing without its shadowed duplicates.
\<close>

datatype walk_step = WalkError path | WalkEntry path bool

definition visible :: "env \<Rightarrow> side \<Rightarrow> tree \<Rightarrow> path \<Rightarrow> bool" where
  "visible e sd fs p = list_all (\<lambda>q. is_dir_at fs q \<and> \<not> readdir_err e sd q) (ancestors p)"

fun walk_item :: "env \<Rightarrow> side \<Rightarrow> path \<times> node \<Rightarrow> walk_step list" where
  "walk_item e sd (p, Reg c t) = [WalkEntry p False]"
| "walk_item e sd (p, Dir s t) =
     WalkEntry p True # (if readdir_err e sd p then [WalkError p] else [])"

definition WalkDir :: "env \<Rightarrow> side \<Rightarrow> tree \<Rightarrow> walk_step list" where
  "WalkDir e sd fs =
     (if stat_err e sd [] \<or> map_of fs [] = None then [WalkError []]
      else concat (map (walk_item e sd)
             (filter (\<lambda>pn. visible e sd fs (fst pn)) (AList.clearjunk fs))))"

record sync_state =
  dst_tree :: tree
  fileCount :: nat
  copiedCount :: nat
  skippedCount :: nat
  errorCount :: nat
  events :: "event list"

definition sync_init :: "tree \<Rightarrow> sync_state" where
  "sync_init dst =
     \<lparr>dst_tree = dst, fileCount = 0, copiedCount = 0, skippedCount = 0, errorCount = 0,
      events = []\<rparr>"

text \<open>The callback of the copy pass; it always returns nil, so the walk goes on.\<close>

definition sync_visit :: "env \<Rightarrow> strategy \<Rightarrow> tree \<Rightarrow> walk_step \<Rightarrow> sync_state \<Rightarrow> sync_state" where
  "sync_visit e strat src step st =
     (case step of
        WalkError p \<Rightarrow> st\<lparr>errorCount := errorCount st + 1\<rparr>
      | WalkEntry p isDir \<Rightarrow>
          if isDir then st
          else
            (case processFileWithStrategy e strat src (dst_tree st) p of
               (Some err, d, l) \<Rightarrow>
                 st\<lparr>dst_tree := d, fileCount := fileCount st + 1,
                    errorCount := errorCount st + 1, events := events st @ l\<rparr>
             | (None, d, l) \<Rightarrow>
                 st\<lparr>dst_tree := d, fileCount := fileCount st + 1,
                    copiedCount := copiedCount st + 1, events := events st @ l\<rparr>))"

definition sync_walk :: "env \<Rightarrow> strategy \<Rightarrow> tree \<Rightarrow> tree \<Rightarrow> sync_state" where
  "sync_walk e strat src dst = fold (sync_visit e strat src) (WalkDir e Source src) (sync_init dst)"

record config =
  DeleteMissing_flag :: bool
  UpdateMethod :: string

text \<open>
  \<^verbatim>\<open>stream.Sync\<close>. The callback never returns an error, so \<^verbatim>\<open>WalkDir\<close> returns nil
  and the only error the function can return is the one of the strategy factory.
\<close>

definition Sync :: "env \<Rightarrow> config \<Rightarrow> tree \<Rightarrow> tree \<Rightarrow> error option \<times> tree \<times> event list" where
  "Sync e cfg src dst =
     (case NewUpdateStrategy (UpdateMethod cfg) of
        Inl err \<Rightarrow> (Some (SyncFailed err), dst, [])
      | Inr strat \<Rightarrow>
          let st = sync_walk e strat src dst
          in (None, dst_tree st,
              events st @ [SyncSummary (fileCount st) (copiedCount st) (skippedCount st) (errorCount st)]))"

section \<open>Deletion pass\<close>

record delete_state =
  del_tree :: tree
  checkedCount :: nat
  deletedCount :: nat
  delErrorCount :: nat
  del_events :: "event list"

definition delete_init :: "tree \<Rightarrow> delete_state" where
  "delete_init dst =
     \<lparr>del_tree = dst, checkedCount = 0, deletedCount = 0, delErrorCount = 0, del_events = []\<rparr>"

definition delete_visit :: "env \<Rightarrow> tree \<Rightarrow> walk_step \<Rightarrow> delete_state \<Rightarrow> delete_state" where
  "delete_visit e src step st =
     (case step of
        WalkError p \<Rightarrow> st\<lparr>delErrorCount := delErrorCount st + 1\<rparr>
      | WalkEntry dstPath isDir \<Rightarrow>
          if isDir then st
          else if rel_err e Target dstPath
          then st\<lparr>checkedCount := checkedCount st + 1, delErrorCount := delErrorCount st + 1\<rparr>
          else
            (case os_stat e Source src dstPath of
               StatNotExist \<Rightarrow>
                 if remove_err e dstPath
                 then st\<lparr>checkedCount := checkedCount st + 1,
                         delErrorCount := delErrorCount st + 1\<rparr>
                 else st\<lparr>del_tree := AList.delete dstPath (del_tree st),
                         checkedCount := checkedCount st + 1,
                         deletedCount := deletedCount st + 1,
                         del_events := del_events st @ [Removed dstPath]\<rparr>
             | StatFailed \<Rightarrow>
                 st\<lparr>checkedCount := checkedCount st + 1, delErrorCount := delErrorCount st + 1\<rparr>
             | StatOk n \<Rightarrow>
                 st\<lparr>checkedCount := checkedCount st + 1,
                    del_events := del_events st @ [Keeping dstPath]\<rparr>))"

definition delete_walk :: "env \<Rightarrow> tree \<Rightarrow> tree \<Rightarrow> delete_state" where
  "delete_walk e src dst = fold (delete_visit e src) (WalkDir e Target dst) (delete_init dst)"

definition DeleteMissing :: "env \<Rightarrow> tree \<Rightarrow> tree \<Rightarrow> error option \<times> tree \<times> event list" where
  "DeleteMissing e src dst =
     (let st = delete_walk e src dst
      in (None, del_tree st,
          del_events st @ [CleanupSummary (checkedCount st) (deletedCount st) (delErrorCount st)]))"

section \<open>Directory validation and the orchestrator\<close>

definition validateDir :: "env \<Rightarrow> side \<Rightarrow> tree \<Rightarrow> bool \<Rightarrow> bool \<times> tree" where
  "validateDir e sd fs allowCreate =
     (case os_stat e sd fs [] of
        StatNotExist \<Rightarrow>
          if allowCreate
          then (case MkdirAll e fs [] of None \<Rightarrow> (False, fs) | Some fs' \<Rightarrow> (True, fs'))
          else (False, fs)
      | StatFailed \<Rightarrow> (False, fs)
      | StatOk info \<Rightarrow> (is_dir info, fs))"

definition ValidateSyncDirs :: "env \<Rightarrow> tree \<Rightarrow> tree \<Rightarrow> error option \<times> tree" where
  "ValidateSyncDirs e src dst =
     (if \<not> fst (validateDir e Source src False) then (Some SourceDirValidation, dst)
      else (case validateDir e Target dst True of
              (False, d) \<Rightarrow> (Some TargetDirValidation, d)
            | (True, d) \<Rightarrow> (None, d)))"

text \<open>
  \<^verbatim>\<open>Synchronizer.Sync\<close>: the three phases in sequence, each setting \<open>hasErrors\<close>
  when it returns an error. The result is the error returned to the caller, the
  target tree at the end and the log.
\<close>

definition Synchronizer_Sync :: "env \<Rightarrow> config \<Rightarrow> tree \<Rightarrow> tree \<Rightarrow> error option \<times> tree \<times> event list" where
  "Synchronizer_Sync e cfg src dst =
     (case ValidateSyncDirs e src dst of
        (verr, d1) \<Rightarrow>
          (case Sync e cfg src d1 of
             (serr, d2, l2) \<Rightarrow>
               (case (if DeleteMissing_flag cfg
                      then (case DeleteMissing e src d2 of (derr, d3, l3) \<Rightarrow> (derr, d3, PhaseDelete # l3))
                      else (None, d2, [])) of
                  (derr, d3, l3) \<Rightarrow>
                    (if verr \<noteq> None \<or> serr \<noteq> None \<or> derr \<noteq> None
                     then Some CompletedWithErrors else None,
                     d3, PhaseValidate # PhaseSync # l2 @ l3))))"

section \<open>Concrete environments and trees\<close>

text \<open>
  An environment in which no system call fails for outside reasons; the digest is
  the identity, which is collision-free.
\<close>

definition quiet_env :: env where
  "quiet_env = \<lparr>stat_err = (\<lambda>sd p. False), readdir_err = (\<lambda>sd p. False),
     rel_err = (\<lambda>sd p. False), mkdir_err = (\<lambda>p. False), open_err = (\<lambda>sd p. False),
     read_err = (\<lambda>sd p. False), create_err = (\<lambda>p. False), copy_err = (\<lambda>p. None),
     fstat_err = (\<lambda>p. False), chtimes_err = (\<lambda>p. False), remove_err = (\<lambda>p. False),
     now = 1000, dir_size = 4096, sha256 = (\<lambda>c. c)\<rparr>"

text \<open>The tree of the scenarios: \<^verbatim>\<open>a.txt\<close> ("hello") and \<^verbatim>\<open>sub/b.txt\<close> ("world").\<close>

definition two_files :: tree where
  "two_files = [([], Dir 4096 1), ([''a.txt''], Reg ''hello'' 5), ([''sub''], Dir 4096 2),
                ([''sub'', ''b.txt''], Reg ''world'' 7)]"

text \<open>The target after a first copy pass of \<open>two_files\<close> into an empty directory.\<close>

definition synced_two_files :: tree where
  "synced_two_files = [([], Dir 4096 3), ([''a.txt''], Reg ''hello'' 5),
     ([''sub''], Dir 4096 1000), ([''sub'', ''b.txt''], Reg ''world'' 7)]"

definition cfg_of :: "bool \<Rightarrow> string \<Rightarrow> config" where
  "cfg_of del m = \<lparr>DeleteMissing_flag = del, UpdateMethod = m\<rparr>"

definition is_walk_error :: "walk_step \<Rightarrow> bool" where
  "is_walk_error x = (case x of WalkError p \<Rightarrow> True | WalkEntry p d \<Rightarrow> False)"

text \<open>
  A target that holds the two files of the source, \<^verbatim>\<open>a.txt\<close> with other bytes, and
  a file \<^verbatim>\<open>extra.txt\<close> that the source does not have.
\<close>

definition diverged_target :: tree where
  "diverged_target = [([], Dir 4096 3), ([''a.txt''], Reg ''HELLO!'' 9),
     ([''extra.txt''], Reg ''x'' 1), ([''sub''], Dir 4096 1000),
     ([''sub'', ''b.txt''], Reg ''world'' 7)]"






section \<open>Evaluation\<close>

lemmas model_defs =
  sync_walk_def WalkDir_def visible_def ancestors_def is_dir_at_def is_reg_at_def sync_init_def
  sync_visit_def processFileWithStrategy_def os_stat_def blocked_def copyFile_def
  mkdir_parent_def MkdirAll_def mkdir_one_def modtime_needs_update_def sha256_needs_update_def
  calculateSHA256_def Sync_def NewUpdateStrategy_def DeleteMissing_def delete_walk_def
  delete_visit_def delete_init_def validateDir_def ValidateSyncDirs_def Synchronizer_Sync_def


section \<open>The modtime strategy\<close>

text \<open>
  C6. For two files that can both be inspected, the modtime strategy reports
  needs-update exactly when the sizes differ or the modification times differ, at the
  full precision of the timestamps; it reports up-to-date exactly when both agree.
\<close>

theorem modtime_needs_update_iff:
  assumes "os_stat e Source src sp = StatOk si" and "os_stat e Target dst dp = StatOk di"
  shows "NeedsUpdate ModTimeStrategy e src dst sp dp =
           Inr (node_size si \<noteq> node_size di \<or> node_modtime si \<noteq> node_modtime di)"
  using assms by (simp add: modtime_needs_update_def)

text \<open>Two files of equal size whose timestamps differ by one nanosecond.\<close>

theorem modtime_needs_update_iff_witness:
  "os_stat quiet_env Source [([''f''], Reg ''abc'' 1000000001)] [''f''] = StatOk (Reg ''abc'' 1000000001)
   \<and> os_stat quiet_env Target [([''f''], Reg ''xyz'' 1000000002)] [''f''] = StatOk (Reg ''xyz'' 1000000002)
   \<and> NeedsUpdate ModTimeStrategy quiet_env [([''f''], Reg ''abc'' 1000000001)]
        [([''f''], Reg ''xyz'' 1000000002)] [''f''] [''f''] = Inr True"
proof -
  have a: "os_stat quiet_env Source [([''f''], Reg ''abc'' 1000000001)] [''f''] = StatOk (Reg ''abc'' 1000000001)"
    by (simp add: os_stat_def quiet_env_def blocked_def ancestors_def is_reg_at_def)
  have b: "os_stat quiet_env Target [([''f''], Reg ''xyz'' 1000000002)] [''f''] = StatOk (Reg ''xyz'' 1000000002)"
    by (simp add: os_stat_def quiet_env_def blocked_def ancestors_def is_reg_at_def)
  show ?thesis using modtime_needs_update_iff [OF a b] a b by simp
qed

section \<open>The strategy factory\<close>




section \<open>The orchestrator\<close>




text \<open>
  C2 as stated fails: a run in which one file cannot be opened counts one error in the
  summary of the copy pass and still returns success to the caller.
\<close>

theorem outcome_counterexample:
  "Synchronizer_Sync (quiet_env\<lparr>open_err := (\<lambda>sd p. p = [''a.txt''])\<rparr>) (cfg_of False ''modtime'')
      two_files []
   = (None,
      [([], Dir 4096 1000), ([''sub''], Dir 4096 1000), ([''sub'', ''b.txt''], Reg ''world'' 7)],
      [PhaseValidate, PhaseSync, NewFile [''a.txt''], NewFile [''sub'', ''b.txt''],
       Copied [''sub'', ''b.txt''], SyncSummary 2 1 0 1])"
  by (simp add: model_defs quiet_env_def two_files_def cfg_of_def)

text \<open>
  C2, amended. The run returns success exactly when validation of the roots succeeds
  and the update method is one of the two supported ones; the per-entry errors of the
  two passes are counted and logged only and do not change the outcome.
\<close>

theorem outcome_success_iff:
  "fst (Synchronizer_Sync e cfg src dst) = None \<longleftrightarrow>
     fst (ValidateSyncDirs e src dst) = None
     \<and> (UpdateMethod cfg = ''modtime'' \<or> UpdateMethod cfg = ''sha256'')"
  by (auto simp add: Synchronizer_Sync_def Sync_def DeleteMissing_def NewUpdateStrategy_def Let_def
      split: prod.splits sum.splits if_splits)

theorem outcome_success_iff_witness:
  "fst (ValidateSyncDirs quiet_env two_files []) = None
   \<and> UpdateMethod (cfg_of True ''sha256'') = ''sha256''
   \<and> fst (Synchronizer_Sync quiet_env (cfg_of True ''sha256'') two_files []) = None"
proof -
  have v: "fst (ValidateSyncDirs quiet_env two_files []) = None"
    by (simp add: model_defs quiet_env_def two_files_def)
  have m: "UpdateMethod (cfg_of True ''sha256'') = ''sha256''"
    by (simp add: cfg_of_def)
  from outcome_success_iff [of quiet_env "cfg_of True ''sha256''" two_files "[]"] v m
  show ?thesis by simp
qed

section \<open>The tally of the copy pass\<close>

text \<open>
  C3. Run on the already synchronised two-file tree, the copy pass leaves the target
  as it is, logs both files as unchanged, and its summary reads 2 files, 2 copied,
  0 skipped, 0 errors.
\<close>

theorem unchanged_tree_tally:
  "Sync quiet_env (cfg_of False ''modtime'') two_files synced_two_files =
     (None, synced_two_files,
      [SkipUnchanged [''a.txt''], SkipUnchanged [''sub'', ''b.txt''], SyncSummary 2 2 0 0])"
  by (simp add: model_defs quiet_env_def two_files_def synced_two_files_def cfg_of_def)

lemma sync_visit_tally:
  "copiedCount (sync_visit e strat src x st) + errorCount (sync_visit e strat src x st) + fileCount st
     = copiedCount st + errorCount st + fileCount (sync_visit e strat src x st)
       + (if is_walk_error x then 1 else 0)
   \<and> skippedCount (sync_visit e strat src x st) = skippedCount st"
  by (simp add: sync_visit_def is_walk_error_def split: walk_step.splits prod.splits option.splits)

lemma sync_fold_tally:
  "copiedCount (fold (sync_visit e strat src) W st) + errorCount (fold (sync_visit e strat src) W st)
       + fileCount st
     = copiedCount st + errorCount st + fileCount (fold (sync_visit e strat src) W st)
       + length (filter is_walk_error W)
   \<and> skippedCount (fold (sync_visit e strat src) W st) = skippedCount st"
proof (induction W arbitrary: st)
  case Nil
  show ?case by simp
next
  case (Cons x W)
  from Cons.IH [of "sync_visit e strat src x st"] sync_visit_tally [of e strat src x st]
  show ?case by (simp split: if_splits)
qed

text \<open>
  C10 as stated fails: for a missing source root the walk reports one access error, so
  the pass ends with 0 files seen, 0 copied and 1 error.
\<close>

theorem copy_pass_tally_counterexample:
  "fileCount (sync_walk quiet_env ModTimeStrategy [] []) \<noteq>
     copiedCount (sync_walk quiet_env ModTimeStrategy [] [])
       + errorCount (sync_walk quiet_env ModTimeStrategy [] [])"
  by (simp add: model_defs quiet_env_def)

text \<open>
  C10, amended. At the end of every walk the files-seen count plus the number of access
  errors reported by the walk equals the copied count plus the error count, and the
  skipped counter is zero: every regular file whose processing returns no error is
  counted as copied, up-to-date files included.
\<close>

theorem copy_pass_tally:
  "fileCount (sync_walk e strat src dst) + length (filter is_walk_error (WalkDir e Source src))
     = copiedCount (sync_walk e strat src dst) + errorCount (sync_walk e strat src dst)
   \<and> skippedCount (sync_walk e strat src dst) = 0"
  using sync_fold_tally [of e strat src "WalkDir e Source src" "sync_init dst"]
  by (simp add: sync_walk_def sync_init_def)

section \<open>The deletion pass\<close>

lemma delete_visit_tree:
  "map_of (del_tree (delete_visit e src x st)) p =
     (if x = WalkEntry p False \<and> \<not> rel_err e Target p
         \<and> os_stat e Source src p = StatNotExist \<and> \<not> remove_err e p
      then None else map_of (del_tree st) p)"
  by (auto simp add: delete_visit_def delete_conv' split: walk_step.splits stat_result.splits)

lemma delete_fold_tree:
  "map_of (del_tree (fold (delete_visit e src) W st)) p =
     (if WalkEntry p False \<in> set W \<and> \<not> rel_err e Target p
         \<and> os_stat e Source src p = StatNotExist \<and> \<not> remove_err e p
      then None else map_of (del_tree st) p)"
proof (induction W arbitrary: st)
  case Nil
  show ?case by simp
next
  case (Cons x W)
  show ?case
    using Cons.IH [of "delete_visit e src x st"] delete_visit_tree [of e src x st p]
    by (auto split: if_splits)
qed

text \<open>
  C8. After the deletion pass the target has lost exactly the regular files that the
  walk visited and whose counterpart under the source root was positively reported
  as not existing (and whose removal succeeded); every other entry is as before,
  whatever its content. When the probe of the source fails for another reason, the
  file is kept and one error is counted.
\<close>

theorem conservative_deletion:
  "map_of (del_tree (delete_walk e src dst)) p =
     (if WalkEntry p False \<in> set (WalkDir e Target dst) \<and> \<not> rel_err e Target p
         \<and> os_stat e Source src p = StatNotExist \<and> \<not> remove_err e p
      then None else map_of dst p)
   \<and> (os_stat e Source src p = StatFailed \<longrightarrow>
        del_tree (delete_visit e src (WalkEntry p False) st) = del_tree st
        \<and> delErrorCount (delete_visit e src (WalkEntry p False) st) = delErrorCount st + 1)"
  using delete_fold_tree [of e src "WalkDir e Target dst" "delete_init dst" p]
  by (simp add: delete_walk_def delete_init_def delete_visit_def)

theorem conservative_deletion_witness:
  "map_of (del_tree (delete_walk quiet_env two_files diverged_target)) [''extra.txt''] = None
   \<and> map_of (del_tree (delete_walk quiet_env two_files diverged_target)) [''a.txt'']
       = Some (Reg ''HELLO!'' 9)
   \<and> os_stat (quiet_env\<lparr>stat_err := (\<lambda>sd q. q = [''extra.txt''])\<rparr>) Source two_files [''extra.txt'']
       = StatFailed
   \<and> delErrorCount (delete_visit (quiet_env\<lparr>stat_err := (\<lambda>sd q. q = [''extra.txt''])\<rparr>) two_files
        (WalkEntry [''extra.txt''] False) (delete_init diverged_target)) = 1
   \<and> del_tree (delete_visit (quiet_env\<lparr>stat_err := (\<lambda>sd q. q = [''extra.txt''])\<rparr>) two_files
        (WalkEntry [''extra.txt''] False) (delete_init diverged_target)) = diverged_target"
proof -
  have w: "WalkEntry [''extra.txt''] False \<in> set (WalkDir quiet_env Target diverged_target)"
    by (simp add: model_defs quiet_env_def diverged_target_def)
  have s1: "os_stat quiet_env Source two_files [''extra.txt''] = StatNotExist"
    by (simp add: model_defs quiet_env_def two_files_def)
  have s2: "os_stat quiet_env Source two_files [''a.txt''] \<noteq> StatNotExist"
    by (simp add: model_defs quiet_env_def two_files_def)
  have r: "\<not> rel_err quiet_env Target [''extra.txt''] \<and> \<not> remove_err quiet_env [''extra.txt'']"
    by (simp add: quiet_env_def)
  have a: "map_of diverged_target [''a.txt''] = Some (Reg ''HELLO!'' 9)"
    by (simp add: diverged_target_def)
  have f: "os_stat (quiet_env\<lparr>stat_err := (\<lambda>sd q. q = [''extra.txt''])\<rparr>) Source two_files [''extra.txt'']
       = StatFailed"
    by (simp add: os_stat_def)
  have i: "delErrorCount (delete_init diverged_target) = 0 \<and> del_tree (delete_init diverged_target) = diverged_target"
    by (simp add: delete_init_def)
  from conservative_deletion [of quiet_env two_files diverged_target "[''extra.txt'']"] w s1 r
  have c1: "map_of (del_tree (delete_walk quiet_env two_files diverged_target)) [''extra.txt''] = None"
    by simp
  from conservative_deletion [of quiet_env two_files diverged_target "[''a.txt'']"] s2 a
  have c2: "map_of (del_tree (delete_walk quiet_env two_files diverged_target)) [''a.txt'']
       = Some (Reg ''HELLO!'' 9)"
    by simp
  from conservative_deletion [of "quiet_env\<lparr>stat_err := (\<lambda>sd q. q = [''extra.txt''])\<rparr>" two_files
      diverged_target "[''extra.txt'']" "delete_init diverged_target"] f i
  have c3: "delErrorCount (delete_visit (quiet_env\<lparr>stat_err := (\<lambda>sd q. q = [''extra.txt''])\<rparr>) two_files
        (WalkEntry [''extra.txt''] False) (delete_init diverged_target)) = 1
   \<and> del_tree (delete_visit (quiet_env\<lparr>stat_err := (\<lambda>sd q. q = [''extra.txt''])\<rparr>) two_files
        (WalkEntry [''extra.txt''] False) (delete_init diverged_target)) = diverged_target"
    by simp
  from c1 c2 c3 f show ?thesis by simp
qed

section \<open>Idempotence of the copy pass\<close>
































section \<open>Completeness of the copy pass\<close>










end
